theory Spec2Isabelle
  imports Main
begin

section \<open>The table of \<open>src/scripts/main.js\<close>\<close>

text \<open>
  The class \<open>GrowthTable\<close> keeps a reference to an HTML table and to four
  controls, and two limits. Everything it reads from or writes to the DOM is a
  part of the state below.

  \<^item> A cell is what its \<open>innerHTML\<close> reads, a string of markup.
  \<^item> A row is the list of its cells (\<open>row.cells\<close>); other children of a row are never
    read.
  \<^item> A table body is the list of its element children: rows, and elements that are not
    rows (\<open>template\<close> and \<open>script\<close> elements may stand in a body). \<open>tbody.rows\<close> are the
    rows among them; \<open>tbody.lastElementChild\<close> is the last child, row or not.
  \<^item> The table is the list of its bodies (\<open>table.tBodies\<close>). Nothing else of the table is
    read or written by the class.
  \<^item> The limits are counts (\<open>@param {number} minDimCount - minimal dimension count\<close>),
    modelled as natural numbers; \<open>delta\<close>, \<open>dx\<close> and \<open>dy\<close> are signed, modelled as
    integers.
  \<^item> The four controls are taken to be four different elements, none of them the
    table; of each only the \<open>disabled\<close> property is kept.
\<close>

type_synonym cell = string
type_synonym row = "cell list"

datatype child = Row row | NonRow

type_synonym tbody = "child list"
type_synonym table = "tbody list"

text \<open>
  The assignment \<open>newCell.innerHTML = cell.innerHTML\<close> does not store the string it is
  given: the browser parses it and builds the content of the new cell from the result. What
  the new cell's \<open>innerHTML\<close> reads afterwards is a function of the assigned markup which is
  no code of this repository; the operations that copy cells take it as the parameter
  \<open>reparse\<close>, and nothing is assumed of it.
\<close>

type_synonym innerHTML_setter = "cell \<Rightarrow> cell"

text \<open>The object \<open>_currentState\<close>; its four entries are \<open>null\<close> until the first sync.\<close>

record currentState_obj =
  canAddX :: "bool option"
  canRemX :: "bool option"
  canAddY :: "bool option"
  canRemY :: "bool option"

record GrowthTable =
  maxDimCount :: nat
  minDimCount :: nat
  tfield :: table
  currentState :: currentState_obj
  addRowBtn :: bool
  remRowBtn :: bool
  addColBtn :: bool
  remColBtn :: bool

text \<open>
  The errors: the two \<open>new Error(...)\<close> of the constructor, and the \<open>TypeError\<close> that
  \<open>Array.from(undefined)\<close> throws.
\<close>

datatype error = Error string | TypeError

text \<open>
  What a method leaves behind: the state, and the error it threw, if any. A method that
  throws has changed the DOM up to the throw.
\<close>

datatype outcome = Outcome (stateOf: GrowthTable) (thrown: "error option")

subsection \<open>\<open>#getBodyOfField\<close>\<close>

text \<open>
  \<open>this._field.tBodies[0] ?? this._field.appendChild(document.createElement('tbody'))\<close>:
  the first body of the table; a table with no body gets a new, empty one. The result is
  the children of that body together with the table as it is left.
\<close>

definition getBodyOfField :: "table \<Rightarrow> tbody \<times> table" where
  "getBodyOfField t = (case t of [] \<Rightarrow> ([], [[]]) | b # bs \<Rightarrow> (b, b # bs))"

text \<open>Writing the children of the first body back (the body is changed in place).\<close>

definition setBody :: "table \<Rightarrow> tbody \<Rightarrow> table" where
  "setBody t b = b # tl t"

text \<open>\<open>tbody.rows\<close>: the rows among the children, in order.\<close>

fun rowsOf :: "tbody \<Rightarrow> row list" where
  "rowsOf [] = []"
| "rowsOf (Row r # cs) = r # rowsOf cs"
| "rowsOf (NonRow # cs) = rowsOf cs"

text \<open>
  The body the class works on, that which \<open>#getBodyOfField\<close> returns: its children, and
  its rows (the grid).
\<close>

definition bodyChildren :: "GrowthTable \<Rightarrow> tbody" where
  "bodyChildren s = fst (getBodyOfField (tfield s))"

definition bodyRows :: "GrowthTable \<Rightarrow> row list" where
  "bodyRows s = rowsOf (bodyChildren s)"

subsection \<open>\<open>#changeRows\<close>\<close>

text \<open>\<open>tbody.lastElementChild\<close>: the last child, \<open>null\<close> on a body with no child.\<close>

definition lastElementChild :: "tbody \<Rightarrow> child option" where
  "lastElementChild children =
     (case children of [] \<Rightarrow> None | _ # _ \<Rightarrow> Some (last children))"

text \<open>
  The loop \<open>for (let i = 0; i < delta; i++)\<close> of the adding branch, from the value
  \<open>i\<close> on. It stops at the limit. Otherwise \<open>insertRow()\<close> appends a new, empty row to
  the body, and then \<open>Array.from(refRow.cells)\<close> is read: when \<open>refRow\<close> is a row, the
  new row gets one new cell for each of its cells, assigned that cell's \<open>innerHTML\<close>;
  when \<open>refRow\<close> is not a row, it has no \<open>cells\<close>, and \<open>Array.from(undefined)\<close> throws,
  the empty row staying in the body. \<open>refRow\<close> is read once, before the loop.
\<close>

function addRows ::
  "innerHTML_setter \<Rightarrow> nat \<Rightarrow> child \<Rightarrow> int \<Rightarrow> int \<Rightarrow> tbody \<Rightarrow> tbody \<times> error option" where
  "addRows reparse maxD refRow delta i children =
     (if i < delta then
        (if maxD \<le> length (rowsOf children) then (children, None)
         else (case refRow of
                 Row cells \<Rightarrow>
                   addRows reparse maxD refRow delta (i + 1)
                     (children @ [Row (map (\<lambda>cell. reparse cell) cells)])
               | NonRow \<Rightarrow> (children @ [Row []], Some TypeError)))
      else (children, None))"
  by pat_completeness auto
termination
  by (relation "measure (\<lambda>(reparse, maxD, refRow, delta, i, children). nat (delta - i))") auto

text \<open>
  \<open>deleteRow(-1)\<close> removes the last of \<open>tbody.rows\<close> from the body, and does nothing on a
  body with no row.
\<close>

fun dropFirstRow :: "tbody \<Rightarrow> tbody" where
  "dropFirstRow [] = []"
| "dropFirstRow (Row r # cs) = cs"
| "dropFirstRow (NonRow # cs) = NonRow # dropFirstRow cs"

definition deleteLastRow :: "tbody \<Rightarrow> tbody" where
  "deleteLastRow children = rev (dropFirstRow (rev children))"

text \<open>The loop of the removing branch, from \<open>i\<close> on: it stops at the limit.\<close>

function removeRows :: "nat \<Rightarrow> int \<Rightarrow> int \<Rightarrow> tbody \<Rightarrow> tbody" where
  "removeRows minD numToRemove i children =
     (if i < numToRemove then
        (if length (rowsOf children) \<le> minD then children
         else removeRows minD numToRemove (i + 1) (deleteLastRow children))
      else children)"
  by pat_completeness auto
termination
  by (relation "measure (\<lambda>(minD, numToRemove, i, children). nat (numToRemove - i))") auto

declare addRows.simps [simp del]
declare removeRows.simps [simp del]

definition changeRows :: "innerHTML_setter \<Rightarrow> GrowthTable \<Rightarrow> int \<Rightarrow> outcome" where
  "changeRows reparse s delta =
     (let (tbody, t) = getBodyOfField (tfield s) in
      if delta > 0 then
        (case lastElementChild tbody of
           None \<Rightarrow> Outcome (s\<lparr>tfield := t\<rparr>) None
         | Some refRow \<Rightarrow>
             (let (tbody', err) = addRows reparse (maxDimCount s) refRow delta 0 tbody
              in Outcome (s\<lparr>tfield := setBody t tbody'\<rparr>) err))
      else
        Outcome (s\<lparr>tfield := setBody t (removeRows (minDimCount s) \<bar>delta\<bar> 0 tbody)\<rparr>) None)"

subsection \<open>\<open>#changeCols\<close>\<close>

text \<open>
  What the adding branch does to one row: nothing at the limit; otherwise one
  \<open>insertCell()\<close>, assigned \<open>lastCell?.innerHTML ?? ''\<close>, where
  \<open>lastCell = row.cells[row.cells.length - 1]\<close> is \<open>undefined\<close> on a row with no cell.
\<close>

definition addCol :: "innerHTML_setter \<Rightarrow> nat \<Rightarrow> row \<Rightarrow> row" where
  "addCol reparse maxD row =
     (if maxD \<le> length row then row
      else row @ [reparse (case row of [] \<Rightarrow> '''' | _ # _ \<Rightarrow> last row)])"

text \<open>
  What the removing branch does to one row: nothing at the limit; otherwise one
  \<open>deleteCell(-1)\<close>, which removes the last cell (and does nothing on a row with no cell).
\<close>

definition remCol :: "nat \<Rightarrow> row \<Rightarrow> row" where
  "remCol minD row = (if length row \<le> minD then row else butlast row)"

text \<open>\<open>Array.from(tbody.rows).forEach\<close>: each row of the body, the other children untouched.\<close>

fun forEachRow :: "(row \<Rightarrow> row) \<Rightarrow> tbody \<Rightarrow> tbody" where
  "forEachRow f [] = []"
| "forEachRow f (Row r # cs) = Row (f r) # forEachRow f cs"
| "forEachRow f (NonRow # cs) = NonRow # forEachRow f cs"

definition changeCols :: "innerHTML_setter \<Rightarrow> GrowthTable \<Rightarrow> int \<Rightarrow> GrowthTable" where
  "changeCols reparse s delta =
     (let (tbody, t) = getBodyOfField (tfield s) in
      if delta > 0 then
        s\<lparr>tfield := setBody t (forEachRow (addCol reparse (maxDimCount s)) tbody)\<rparr>
      else s\<lparr>tfield := setBody t (forEachRow (remCol (minDimCount s)) tbody)\<rparr>)"

subsection \<open>\<open>#syncCurrentState\<close>\<close>

text \<open>\<open>tbody.rows[0]?.cells.length || 0\<close>\<close>

definition colCount :: "row list \<Rightarrow> nat" where
  "colCount rows = (case rows of [] \<Rightarrow> 0 | r # _ \<Rightarrow> length r)"

text \<open>One flag: set to \<open>true\<close> first, then to \<open>false\<close> when the test of the limit holds.\<close>

definition flag :: "bool \<Rightarrow> bool" where
  "flag atLimit = (if atLimit then False else True)"

definition syncCurrentState :: "GrowthTable \<Rightarrow> GrowthTable" where
  "syncCurrentState s =
     (let (tbody, t) = getBodyOfField (tfield s);
          rowCount = length (rowsOf tbody);
          colCount = colCount (rowsOf tbody);
          addY = flag (rowCount \<ge> maxDimCount s);
          remY = flag (rowCount \<le> minDimCount s);
          addX = flag (colCount \<ge> maxDimCount s);
          remX = flag (colCount \<le> minDimCount s)
      in s\<lparr>tfield := t,
            currentState := \<lparr>canAddX = Some addX, canRemX = Some remX,
                              canAddY = Some addY, canRemY = Some remY\<rparr>,
            addRowBtn := \<not> addY,
            remRowBtn := \<not> remY,
            addColBtn := \<not> addX,
            remColBtn := \<not> remX\<rparr>)"

subsection \<open>\<open>clickHandler\<close>\<close>

text \<open>An error thrown by \<open>#changeRows\<close> ends the handler: no sync follows.\<close>

definition clickHandler :: "innerHTML_setter \<Rightarrow> int \<Rightarrow> int \<Rightarrow> GrowthTable \<Rightarrow> outcome" where
  "clickHandler reparse dx dy s =
     (let o1 = (if dy \<noteq> 0 then changeRows reparse s dy else Outcome s None) in
      case thrown o1 of
        Some e \<Rightarrow> o1
      | None \<Rightarrow>
          (let s1 = stateOf o1;
               s2 = (if dx \<noteq> 0 then changeCols reparse s1 dx else s1)
           in Outcome (syncCurrentState s2) None))"

subsection \<open>The constructor\<close>

text \<open>
  The document, as far as \<open>querySelector\<close> reads it: the first element a selector
  matches, if any. An element is a table (\<open>instanceof HTMLTableElement\<close>) with its bodies,
  or another element, of which the \<open>disabled\<close> property is kept. A constructor that
  throws gives no instance.
\<close>

datatype element = HTMLTableElement table | OtherElement bool

type_synonym document = "string \<Rightarrow> element option"

definition isDisabled :: "element \<Rightarrow> bool" where
  "isDisabled e = (case e of HTMLTableElement _ \<Rightarrow> False | OtherElement d \<Rightarrow> d)"

text \<open>A parameter with a default value: \<open>None\<close> is the argument left out.\<close>

definition orDefault :: "'a \<Rightarrow> 'a option \<Rightarrow> 'a" where
  "orDefault d x = (case x of None \<Rightarrow> d | Some v \<Rightarrow> v)"

definition constructor ::
  "document \<Rightarrow> string option \<Rightarrow> string option \<Rightarrow> string option \<Rightarrow> string option \<Rightarrow>
   string option \<Rightarrow> nat option \<Rightarrow> nat option \<Rightarrow> error + GrowthTable" where
  "constructor doc tableFieldSel appendRowButtonSel removeRowButtonSel appendColButtonSel
     removeColButtonSel minDimCountArg maxDimCountArg =
     (case doc (orDefault ''.field'' tableFieldSel) of
        Some (HTMLTableElement t) \<Rightarrow>
          (case (doc (orDefault ''.append-row.button'' appendRowButtonSel),
                 doc (orDefault ''.remove-row.button'' removeRowButtonSel),
                 doc (orDefault ''.append-column.button'' appendColButtonSel),
                 doc (orDefault ''.remove-column.button'' removeColButtonSel)) of
             (Some addRowEl, Some remRowEl, Some addColEl, Some remColEl) \<Rightarrow>
               Inr (syncCurrentState
                 \<lparr>maxDimCount = orDefault 10 maxDimCountArg,
                  minDimCount = orDefault 2 minDimCountArg,
                  tfield = t,
                  currentState = \<lparr>canAddX = None, canRemX = None,
                                    canAddY = None, canRemY = None\<rparr>,
                  addRowBtn = isDisabled addRowEl,
                  remRowBtn = isDisabled remRowEl,
                  addColBtn = isDisabled addColEl,
                  remColBtn = isDisabled remColEl\<rparr>)
           | _ \<Rightarrow> Inl (Error ''Some of control elements are not found in DOM''))
      | _ \<Rightarrow> Inl (Error ''Table field element is not found in DOM''))"

subsection \<open>Rectangular grids\<close>

text \<open>Every row has as many cells as the first.\<close>

fun rectangular :: "row list \<Rightarrow> bool" where
  "rectangular [] = True"
| "rectangular (r # rs) = list_all (\<lambda>x. length x = length r) rs"

subsection \<open>States, documents and markup for the examples\<close>

text \<open>
  A table with one body of the given children, with the given limits, before any sync;
  the same for a body of rows only; and a document with a table of the given rows under
  the default selector and the four controls under theirs.
\<close>

definition bodyState :: "nat \<Rightarrow> nat \<Rightarrow> tbody \<Rightarrow> GrowthTable" where
  "bodyState minD maxD children =
     \<lparr>maxDimCount = maxD, minDimCount = minD, tfield = [children],
      currentState = \<lparr>canAddX = None, canRemX = None, canAddY = None, canRemY = None\<rparr>,
      addRowBtn = False, remRowBtn = False, addColBtn = False, remColBtn = False\<rparr>"

definition tableState :: "nat \<Rightarrow> nat \<Rightarrow> row list \<Rightarrow> GrowthTable" where
  "tableState minD maxD rows = bodyState minD maxD (map Row rows)"

definition tableDocument :: "row list \<Rightarrow> document" where
  "tableDocument rows sel =
     (if sel = ''.field'' then Some (HTMLTableElement [map Row rows])
      else if sel = ''.append-row.button'' \<or> sel = ''.remove-row.button'' \<or>
              sel = ''.append-column.button'' \<or> sel = ''.remove-column.button''
           then Some (OtherElement False)
      else None)"

text \<open>
  Markup that does not survive the assignment to \<open>innerHTML\<close>: the HTML parser drops a
  line feed that comes right after the start tag of a \<open>pre\<close> element. A cell that holds
  a \<open>pre\<close> element whose text starts with a line feed reads \<open>preWithLineFeed\<close>; a cell
  assigned that markup reads \<open>preWithout\<close>. \<open>preSetter\<close> is a setter that does this to
  that markup and stores every other markup as it is.
\<close>

definition preWithLineFeed :: cell where
  "preWithLineFeed = ''<pre>'' @ [CHR 0x0A] @ ''foo</pre>''"

definition preWithout :: cell where
  "preWithout = ''<pre>foo</pre>''"

definition preSetter :: innerHTML_setter where
  "preSetter markup = (if markup = preWithLineFeed then preWithout else markup)"

section \<open>The rows of a body\<close>

lemma rowsOf_append: "rowsOf (xs @ ys) = rowsOf xs @ rowsOf ys"
  by (induction xs rule: rowsOf.induct) simp_all

lemma rowsOf_rev: "rowsOf (rev cs) = rev (rowsOf cs)"
  by (induction cs rule: rowsOf.induct) (simp_all add: rowsOf_append)

lemma rowsOf_map_Row: "rowsOf (map Row rows) = rows"
  by (induction rows) simp_all

lemma rowsOf_replicate_Row: "rowsOf (replicate n (Row r)) = replicate n r"
  by (induction n) simp_all

lemma rowsOf_dropFirstRow: "rowsOf (dropFirstRow cs) = tl (rowsOf cs)"
  by (induction cs rule: dropFirstRow.induct) simp_all

lemma rowsOf_deleteLastRow: "rowsOf (deleteLastRow cs) = butlast (rowsOf cs)"
  by (simp add: deleteLastRow_def rowsOf_rev rowsOf_dropFirstRow butlast_rev [symmetric])

lemma rowsOf_forEachRow: "rowsOf (forEachRow f cs) = map f (rowsOf cs)"
  by (induction f cs rule: forEachRow.induct) simp_all

lemma last_rowsOf:
  assumes "lastElementChild cs = Some (Row r)"
  shows "rowsOf cs \<noteq> [] \<and> last (rowsOf cs) = r"
proof -
  from assms have ne: "cs \<noteq> []" and l: "last cs = Row r"
    by (auto simp: lastElementChild_def split: list.splits)
  then have "cs = butlast cs @ [Row r]"
    by (metis append_butlast_last_id)
  then have "rowsOf cs = rowsOf (butlast cs) @ [r]"
    by (metis rowsOf_append rowsOf.simps(1,2))
  then show ?thesis by simp
qed

section \<open>The two loops of \<open>#changeRows\<close>\<close>

text \<open>
  With a row as \<open>refRow\<close>, the adding loop appends rows made of the cells of \<open>refRow\<close> as
  assigned: as many as iterations are left, and no more than the limit leaves room for.
\<close>

lemma addRows_Row:
  "addRows reparse maxD (Row r) delta i cs =
     (cs @ replicate (min (nat (delta - i)) (maxD - length (rowsOf cs)))
        (Row (map reparse r)), None)"
proof (induction reparse maxD "Row r" delta i cs rule: addRows.induct)
  case (1 reparse maxD delta i cs)
  let ?new = "Row (map reparse r)"
  show ?case
  proof (cases "i < delta \<and> \<not> maxD \<le> length (rowsOf cs)")
    case True
    then have m: "min (nat (delta - i)) (maxD - length (rowsOf cs)) =
        Suc (min (nat (delta - (i + 1))) (maxD - length (rowsOf (cs @ [?new]))))"
    proof -
      from True have "nat (delta - i) = Suc (nat (delta - (i + 1)))" by arith
      moreover from True
      have "maxD - length (rowsOf cs) = Suc (maxD - length (rowsOf (cs @ [?new])))"
        by (auto simp: rowsOf_append)
      ultimately show ?thesis by simp
    qed
    from True have "addRows reparse maxD (Row r) delta i cs =
        addRows reparse maxD (Row r) delta (i + 1) (cs @ [?new])"
      by (subst addRows.simps) simp
    also have "\<dots> = ((cs @ [?new]) @
        replicate (min (nat (delta - (i + 1))) (maxD - length (rowsOf (cs @ [?new])))) ?new,
        None)"
      using "1.hyps" True by simp
    finally show ?thesis
      by (simp add: m)
  next
    case False
    then show ?thesis
      by (subst addRows.simps) auto
  qed
qed

text \<open>With another element as \<open>refRow\<close>, the first iteration below the limit throws.\<close>

lemma addRows_NonRow:
  "i < delta \<Longrightarrow> length (rowsOf cs) < maxD \<Longrightarrow>
   addRows reparse maxD NonRow delta i cs = (cs @ [Row []], Some TypeError)"
  by (subst addRows.simps) simp

lemma addRows_at_limit:
  "maxD \<le> length (rowsOf cs) \<Longrightarrow> addRows reparse maxD refRow delta i cs = (cs, None)"
  by (subst addRows.simps) simp

text \<open>The removing loop keeps a prefix of the rows.\<close>

lemma removeRows_eq:
  "rowsOf (removeRows minD n i cs) =
     take (length (rowsOf cs) - min (nat (n - i)) (length (rowsOf cs) - minD)) (rowsOf cs)"
proof (induction minD n i cs rule: removeRows.induct)
  case (1 minD n i cs)
  let ?rows = "rowsOf cs"
  show ?case
  proof (cases "i < n \<and> \<not> length ?rows \<le> minD")
    case True
    from True have "removeRows minD n i cs = removeRows minD n (i + 1) (deleteLastRow cs)"
      by (subst removeRows.simps) simp
    then have "rowsOf (removeRows minD n i cs) = take (length (butlast ?rows) -
        min (nat (n - (i + 1))) (length (butlast ?rows) - minD)) (butlast ?rows)"
      using "1.IH" True by (simp add: rowsOf_deleteLastRow)
    also have "\<dots> = take (length ?rows - min (nat (n - i)) (length ?rows - minD)) ?rows"
    proof -
      from True have a: "nat (n - i) = Suc (nat (n - (i + 1)))" by arith
      from True have b: "length ?rows - minD = Suc (length (butlast ?rows) - minD)"
        by auto
      have c: "length (butlast ?rows) -
          min (nat (n - (i + 1))) (length (butlast ?rows) - minD) =
          length ?rows - min (nat (n - i)) (length ?rows - minD)"
        unfolding a b using True by simp
      have "length ?rows - min (nat (n - i)) (length ?rows - minD) \<le> length ?rows - 1"
        unfolding a b using True by simp
      then show ?thesis
        unfolding c by (simp add: butlast_conv_take min_def)
    qed
    finally show ?thesis .
  next
    case False
    then show ?thesis
      by (subst removeRows.simps) auto
  qed
qed

lemma removeRows_at_limit:
  "length (rowsOf cs) \<le> minD \<Longrightarrow> removeRows minD n i cs = cs"
  by (subst removeRows.simps) simp

section \<open>The body after each operation\<close>

lemma bodyChildren_bodyState: "bodyChildren (bodyState minD maxD cs) = cs"
  by (simp add: bodyChildren_def bodyState_def getBodyOfField_def)

lemma bodyRows_bodyState: "bodyRows (bodyState minD maxD cs) = rowsOf cs"
  by (simp add: bodyRows_def bodyChildren_bodyState)

lemma bodyRows_tableState: "bodyRows (tableState minD maxD rows) = rows"
  by (simp add: tableState_def bodyRows_bodyState rowsOf_map_Row)

lemma limits_bodyState:
  "maxDimCount (bodyState minD maxD cs) = maxD" "minDimCount (bodyState minD maxD cs) = minD"
  by (simp_all add: bodyState_def)

lemma limits_tableState:
  "maxDimCount (tableState minD maxD rows) = maxD"
  "minDimCount (tableState minD maxD rows) = minD"
  by (simp_all add: tableState_def limits_bodyState)

lemma bodyChildren_setBody: "bodyChildren (s\<lparr>tfield := setBody t b\<rparr>) = b"
  by (simp add: bodyChildren_def setBody_def getBodyOfField_def)

lemma bodyChildren_ensured:
  "bodyChildren (s\<lparr>tfield := snd (getBodyOfField (tfield s))\<rparr>) = bodyChildren s"
  by (simp add: bodyChildren_def getBodyOfField_def split: list.splits)

lemma changeRows_unfold_grow:
  assumes "0 < delta"
  shows "changeRows reparse s delta =
     (case lastElementChild (bodyChildren s) of
        None \<Rightarrow> Outcome (s\<lparr>tfield := snd (getBodyOfField (tfield s))\<rparr>) None
      | Some refRow \<Rightarrow>
          Outcome (s\<lparr>tfield := setBody (snd (getBodyOfField (tfield s)))
              (fst (addRows reparse (maxDimCount s) refRow delta 0 (bodyChildren s)))\<rparr>)
            (snd (addRows reparse (maxDimCount s) refRow delta 0 (bodyChildren s))))"
  using assms
  by (simp add: changeRows_def bodyChildren_def split: prod.splits option.splits)

lemma changeRows_unfold_shrink:
  assumes "delta \<le> 0"
  shows "changeRows reparse s delta =
     Outcome (s\<lparr>tfield := setBody (snd (getBodyOfField (tfield s)))
         (removeRows (minDimCount s) \<bar>delta\<bar> 0 (bodyChildren s))\<rparr>) None"
  using assms
  by (simp add: changeRows_def bodyChildren_def split: prod.splits)

lemma changeRows_grow_no_child:
  assumes "0 < delta" and "bodyChildren s = []"
  shows "thrown (changeRows reparse s delta) = None"
    and "bodyChildren (stateOf (changeRows reparse s delta)) = []"
  using assms
  by (simp_all add: changeRows_unfold_grow lastElementChild_def bodyChildren_ensured)

lemma changeRows_grow_Row:
  assumes "0 < delta" and "lastElementChild (bodyChildren s) = Some (Row r)"
  shows "thrown (changeRows reparse s delta) = None"
    and "bodyRows (stateOf (changeRows reparse s delta)) =
      bodyRows s @ replicate (min (nat delta) (maxDimCount s - length (bodyRows s)))
        (map reparse r)"
  using assms
  by (simp_all add: changeRows_unfold_grow addRows_Row bodyRows_def bodyChildren_setBody
      rowsOf_append rowsOf_replicate_Row)

lemma changeRows_grow_NonRow:
  assumes "0 < delta" and "lastElementChild (bodyChildren s) = Some NonRow"
    and "length (bodyRows s) < maxDimCount s"
  shows "thrown (changeRows reparse s delta) = Some TypeError"
    and "bodyRows (stateOf (changeRows reparse s delta)) = bodyRows s @ [[]]"
  using assms
  by (simp_all add: changeRows_unfold_grow addRows_NonRow bodyRows_def bodyChildren_setBody
      rowsOf_append)

lemma changeRows_grow_at_limit:
  assumes "0 < delta" and "maxDimCount s \<le> length (bodyRows s)"
  shows "thrown (changeRows reparse s delta) = None"
    and "bodyChildren (stateOf (changeRows reparse s delta)) = bodyChildren s"
  using assms
  by (simp_all add: changeRows_unfold_grow addRows_at_limit bodyRows_def bodyChildren_setBody
      bodyChildren_ensured split: option.splits)

lemma changeRows_shrink:
  assumes "delta \<le> 0"
  shows "thrown (changeRows reparse s delta) = None"
    and "bodyRows (stateOf (changeRows reparse s delta)) =
      take (length (bodyRows s) - min (nat (- delta)) (length (bodyRows s) - minDimCount s))
        (bodyRows s)"
  using assms
  by (simp_all add: changeRows_unfold_shrink bodyRows_def bodyChildren_setBody removeRows_eq)

lemma changeRows_shrink_at_limit:
  assumes "delta \<le> 0" and "length (bodyRows s) \<le> minDimCount s"
  shows "bodyChildren (stateOf (changeRows reparse s delta)) = bodyChildren s"
  using assms
  by (simp add: changeRows_unfold_shrink bodyRows_def bodyChildren_setBody removeRows_at_limit)

lemma changeCols_grow:
  "0 < delta \<Longrightarrow>
   bodyRows (changeCols reparse s delta) = map (addCol reparse (maxDimCount s)) (bodyRows s)"
  by (simp add: changeCols_def bodyRows_def bodyChildren_def setBody_def getBodyOfField_def
      rowsOf_forEachRow split: list.splits)

lemma changeCols_shrink:
  "delta \<le> 0 \<Longrightarrow>
   bodyRows (changeCols reparse s delta) = map (remCol (minDimCount s)) (bodyRows s)"
  by (simp add: changeCols_def bodyRows_def bodyChildren_def setBody_def getBodyOfField_def
      rowsOf_forEachRow split: list.splits)

lemma bodyChildren_syncCurrentState: "bodyChildren (syncCurrentState s) = bodyChildren s"
  by (auto simp: syncCurrentState_def bodyChildren_def getBodyOfField_def Let_def
      split: list.splits)

lemma bodyRows_syncCurrentState: "bodyRows (syncCurrentState s) = bodyRows s"
  by (simp add: bodyRows_def bodyChildren_syncCurrentState)

section \<open>The four flags\<close>

text \<open>
  \<open>refreshCapabilities\<close> is \<open>#syncCurrentState\<close>; \<open>canAddY\<close> and \<open>canRemY\<close> are the flags of
  the rows (\<open>canGrowRows\<close>, \<open>canShrinkRows\<close>: they set \<open>disabled\<close> of the two row controls),
  \<open>canAddX\<close> and \<open>canRemX\<close> those of the columns.

  C2. For every state, the sync leaves exactly the four flags
  \<open>canGrowRows = (R < maxDim)\<close>, \<open>canShrinkRows = (R > minDim)\<close>,
  \<open>canGrowCols = (C < maxDim)\<close> and \<open>canShrinkCols = (C > minDim)\<close>, where \<open>R\<close> is the
  number of rows and \<open>C\<close> the number of cells of the first row, or 0 when there is no row.
\<close>

theorem syncCurrentState_flags:
  "currentState (syncCurrentState s) =
     \<lparr>canAddX = Some (colCount (bodyRows s) < maxDimCount s),
      canRemX = Some (colCount (bodyRows s) > minDimCount s),
      canAddY = Some (length (bodyRows s) < maxDimCount s),
      canRemY = Some (length (bodyRows s) > minDimCount s)\<rparr>
   \<and> colCount (bodyRows s) = (case bodyRows s of [] \<Rightarrow> 0 | r # _ \<Rightarrow> length r)"
  by (auto simp: syncCurrentState_def bodyRows_def bodyChildren_def Let_def flag_def
      colCount_def split: prod.splits)

text \<open>
  C9. The sync is idempotent and has no effect on the grid: a second sync right after a
  first leaves the same flags (and the same state altogether), and neither changes a row
  or a cell: the rows of the body are the same, and so are the children of all bodies of
  the table (on a table with no body the first sync adds an empty body, which has no row).
\<close>

theorem syncCurrentState_idempotent:
  "syncCurrentState (syncCurrentState s) = syncCurrentState s
   \<and> currentState (syncCurrentState (syncCurrentState s)) = currentState (syncCurrentState s)
   \<and> bodyRows (syncCurrentState s) = bodyRows s
   \<and> bodyRows (syncCurrentState (syncCurrentState s)) = bodyRows s
   \<and> concat (tfield (syncCurrentState s)) = concat (tfield s)
   \<and> concat (tfield (syncCurrentState (syncCurrentState s))) = concat (tfield s)"
proof -
  have idem: "syncCurrentState (syncCurrentState s) = syncCurrentState s"
    by (auto simp: syncCurrentState_def getBodyOfField_def Let_def split: list.splits)
  have rows: "concat (tfield (syncCurrentState s)) = concat (tfield s)"
    by (auto simp: syncCurrentState_def getBodyOfField_def Let_def split: list.splits)
  from idem rows show ?thesis
    by (simp add: bodyRows_syncCurrentState)
qed

section \<open>Requests at a limit\<close>

text \<open>
  \<open>growRows(k)\<close> is \<open>#changeRows(k)\<close> and \<open>shrinkRows(k)\<close> is \<open>#changeRows(-k)\<close>, for
  \<open>k \<ge> 1\<close>.

  C6. No request at or past a limit fails; it changes nothing. For every \<open>k \<ge> 1\<close>: with
  \<open>maxDim\<close> rows (or more), \<open>growRows(k)\<close> throws nothing and leaves the rows as they are;
  with \<open>minDim\<close> rows (or fewer), \<open>shrinkRows(k)\<close> throws nothing and leaves the rows as
  they are. This holds whatever the children of the body are: at the limit both loops
  stop before they touch the DOM.
\<close>

theorem changeRows_at_limit:
  assumes "1 \<le> k"
  shows "(maxDimCount s \<le> length (bodyRows s) \<longrightarrow>
            thrown (changeRows reparse s k) = None
          \<and> bodyRows (stateOf (changeRows reparse s k)) = bodyRows s)
       \<and> (length (bodyRows s) \<le> minDimCount s \<longrightarrow>
            thrown (changeRows reparse s (- k)) = None
          \<and> bodyRows (stateOf (changeRows reparse s (- k))) = bodyRows s)"
proof (intro conjI impI)
  assume lim: "maxDimCount s \<le> length (bodyRows s)"
  from assms have pos: "0 < k" by simp
  show "thrown (changeRows reparse s k) = None"
    by (rule changeRows_grow_at_limit(1) [OF pos lim])
  show "bodyRows (stateOf (changeRows reparse s k)) = bodyRows s"
    by (simp add: bodyRows_def changeRows_grow_at_limit(2) [OF pos lim])
next
  assume lim: "length (bodyRows s) \<le> minDimCount s"
  from assms have neg: "- k \<le> 0" by simp
  show "thrown (changeRows reparse s (- k)) = None"
    by (rule changeRows_shrink(1) [OF neg])
  show "bodyRows (stateOf (changeRows reparse s (- k))) = bodyRows s"
    by (simp add: bodyRows_def changeRows_shrink_at_limit [OF neg lim])
qed

text \<open>
  Two rows, followed by an element that is no row, at \<open>maxDim = 2\<close>; and two rows at
  \<open>minDim = 2\<close>.
\<close>

theorem changeRows_at_limit_witness:
  "(1::int) \<le> 3
   \<and> maxDimCount (bodyState 1 2 [Row [''a''], Row [''b''], NonRow])
       \<le> length (bodyRows (bodyState 1 2 [Row [''a''], Row [''b''], NonRow]))
   \<and> thrown (changeRows preSetter (bodyState 1 2 [Row [''a''], Row [''b''], NonRow]) 3) = None
   \<and> bodyRows (stateOf
        (changeRows preSetter (bodyState 1 2 [Row [''a''], Row [''b''], NonRow]) 3)) =
       [[''a''], [''b'']]
   \<and> length (bodyRows (tableState 2 5 [[''a''], [''b'']]))
       \<le> minDimCount (tableState 2 5 [[''a''], [''b'']])
   \<and> thrown (changeRows preSetter (tableState 2 5 [[''a''], [''b'']]) (- 3)) = None
   \<and> bodyRows (stateOf (changeRows preSetter (tableState 2 5 [[''a''], [''b'']]) (- 3))) =
       [[''a''], [''b'']]"
proof -
  have h: "(1::int) \<le> 3" by simp
  have a: "maxDimCount (bodyState 1 2 [Row [''a''], Row [''b''], NonRow])
       \<le> length (bodyRows (bodyState 1 2 [Row [''a''], Row [''b''], NonRow]))"
    by (simp add: bodyRows_bodyState limits_bodyState)
  have b: "length (bodyRows (tableState 2 5 [[''a''], [''b'']]))
       \<le> minDimCount (tableState 2 5 [[''a''], [''b'']])"
    by (simp add: bodyRows_tableState limits_tableState)
  from changeRows_at_limit [OF h, of "bodyState 1 2 [Row [''a''], Row [''b''], NonRow]" preSetter]
    changeRows_at_limit [OF h, of "tableState 2 5 [[''a''], [''b'']]" preSetter] a b
  show ?thesis
    by (simp add: bodyRows_tableState bodyRows_bodyState)
qed

section \<open>One cell for each column operation\<close>

lemma length_addCol:
  "length (addCol reparse maxD r) = (if maxD \<le> length r then length r else length r + 1)"
  by (simp add: addCol_def)

lemma length_remCol:
  "length (remCol minD r) = (if length r \<le> minD then length r else length r - 1)"
  by (simp add: remCol_def)

text \<open>
  C10. For every state and every \<open>delta\<close> other than 0, \<open>#changeCols(delta)\<close> changes the
  number of cells of every row it does not skip by exactly one, whatever the magnitude of
  \<open>delta\<close>: for \<open>delta > 0\<close> every row with fewer than \<open>maxDim\<close> cells has one cell more
  and the others are unchanged; for \<open>delta < 0\<close> every row with more than \<open>minDim\<close> cells
  has one cell fewer and the others are unchanged. Only the sign of \<open>delta\<close> is used: the
  state afterwards is that of \<open>#changeCols(1)\<close> or of \<open>#changeCols(-1)\<close>.
\<close>

theorem changeCols_one_cell:
  assumes "delta \<noteq> 0"
  shows "length (bodyRows (changeCols reparse s delta)) = length (bodyRows s)
       \<and> (\<forall>i < length (bodyRows s).
            (0 < delta \<and> length (bodyRows s ! i) < maxDimCount s \<longrightarrow>
               length (bodyRows (changeCols reparse s delta) ! i) =
                 length (bodyRows s ! i) + 1)
          \<and> (0 < delta \<and> maxDimCount s \<le> length (bodyRows s ! i) \<longrightarrow>
               bodyRows (changeCols reparse s delta) ! i = bodyRows s ! i)
          \<and> (delta < 0 \<and> minDimCount s < length (bodyRows s ! i) \<longrightarrow>
               length (bodyRows (changeCols reparse s delta) ! i) + 1 =
                 length (bodyRows s ! i))
          \<and> (delta < 0 \<and> length (bodyRows s ! i) \<le> minDimCount s \<longrightarrow>
               bodyRows (changeCols reparse s delta) ! i = bodyRows s ! i))
       \<and> changeCols reparse s delta = changeCols reparse s (if 0 < delta then 1 else - 1)"
proof (cases "0 < delta")
  case True
  then have "changeCols reparse s delta = changeCols reparse s 1"
    by (simp add: changeCols_def)
  with True show ?thesis
    by (simp add: changeCols_grow length_addCol) (simp add: addCol_def)
next
  case False
  with assms have neg: "delta < 0" by simp
  then have "changeCols reparse s delta = changeCols reparse s (- 1)"
    by (simp add: changeCols_def)
  with neg show ?thesis
    by (simp add: changeCols_shrink length_remCol) (auto simp: remCol_def)
qed

text \<open>Two rows of three cells, with \<open>delta = 5\<close> and \<open>delta = -5\<close>.\<close>

theorem changeCols_one_cell_witness:
  "(5::int) \<noteq> 0 \<and> (- 5::int) \<noteq> 0
   \<and> bodyRows (changeCols preSetter
        (tableState 2 10 [[''a'', ''b'', ''c''], [''d'', ''e'', ''f'']]) 5) =
       [[''a'', ''b'', ''c'', ''c''], [''d'', ''e'', ''f'', ''f'']]
   \<and> bodyRows (changeCols preSetter
        (tableState 2 10 [[''a'', ''b'', ''c''], [''d'', ''e'', ''f'']]) (- 5)) =
       [[''a'', ''b''], [''d'', ''e'']]"
proof -
  have h: "(5::int) \<noteq> 0" "(- 5::int) \<noteq> 0" by simp_all
  have p: "preSetter ''c'' = ''c''" "preSetter ''f'' = ''f''"
    by (simp_all add: preSetter_def preWithLineFeed_def)
  have g: "bodyRows (changeCols preSetter
        (tableState 2 10 [[''a'', ''b'', ''c''], [''d'', ''e'', ''f'']]) 1) =
       [[''a'', ''b'', ''c'', ''c''], [''d'', ''e'', ''f'', ''f'']]"
    by (simp add: changeCols_grow bodyRows_tableState limits_tableState addCol_def p)
  have r: "bodyRows (changeCols preSetter
        (tableState 2 10 [[''a'', ''b'', ''c''], [''d'', ''e'', ''f'']]) (- 1)) =
       [[''a'', ''b''], [''d'', ''e'']]"
    by (simp add: changeCols_shrink bodyRows_tableState limits_tableState remCol_def)
  from changeCols_one_cell
      [OF h(1), of preSetter "tableState 2 10 [[''a'', ''b'', ''c''], [''d'', ''e'', ''f'']]"]
    changeCols_one_cell
      [OF h(2), of preSetter "tableState 2 10 [[''a'', ''b'', ''c''], [''d'', ''e'', ''f'']]"]
    g r
  show ?thesis
    by simp
qed

section \<open>What the constructor checks\<close>

lemma tableDocument_field:
  "tableDocument rows ''.field'' = Some (HTMLTableElement [map Row rows])"
  by (simp add: tableDocument_def)

lemma tableDocument_controls:
  "tableDocument rows ''.append-row.button'' = Some (OtherElement False)"
  "tableDocument rows ''.remove-row.button'' = Some (OtherElement False)"
  "tableDocument rows ''.append-column.button'' = Some (OtherElement False)"
  "tableDocument rows ''.remove-column.button'' = Some (OtherElement False)"
  by (simp_all add: tableDocument_def)

text \<open>
  C4, as amended. The constructor makes no check of \<open>minDim\<close>, of \<open>maxDim\<close> or of the shape
  of the grid: whenever the selector of the table resolves to a table and the four
  selectors of the controls resolve to elements, construction succeeds for every
  \<open>minDim\<close>, every \<open>maxDim\<close> and every grid (also with \<open>minDim < 1\<close>, with
  \<open>maxDim < minDim\<close> and with rows of unequal length), and the instance has the limits
  as they were given and the rows of the table as they were.
\<close>

theorem constructor_no_validation:
  assumes "doc (orDefault ''.field'' tableFieldSel) = Some (HTMLTableElement t)"
    and "doc (orDefault ''.append-row.button'' appendRowButtonSel) \<noteq> None"
    and "doc (orDefault ''.remove-row.button'' removeRowButtonSel) \<noteq> None"
    and "doc (orDefault ''.append-column.button'' appendColButtonSel) \<noteq> None"
    and "doc (orDefault ''.remove-column.button'' removeColButtonSel) \<noteq> None"
  shows "\<exists>s. constructor doc tableFieldSel appendRowButtonSel removeRowButtonSel
              appendColButtonSel removeColButtonSel minDimCountArg maxDimCountArg = Inr s
           \<and> minDimCount s = orDefault 2 minDimCountArg
           \<and> maxDimCount s = orDefault 10 maxDimCountArg
           \<and> bodyRows s = rowsOf (fst (getBodyOfField t))"
proof -
  from assms(2-5) obtain e1 e2 e3 e4 where
    e: "doc (orDefault ''.append-row.button'' appendRowButtonSel) = Some e1"
       "doc (orDefault ''.remove-row.button'' removeRowButtonSel) = Some e2"
       "doc (orDefault ''.append-column.button'' appendColButtonSel) = Some e3"
       "doc (orDefault ''.remove-column.button'' removeColButtonSel) = Some e4"
    by auto
  define s0 where "s0 =
    \<lparr>maxDimCount = orDefault 10 maxDimCountArg,
     minDimCount = orDefault 2 minDimCountArg,
     tfield = t,
     currentState = \<lparr>canAddX = None, canRemX = None, canAddY = None, canRemY = None\<rparr>,
     addRowBtn = isDisabled e1, remRowBtn = isDisabled e2,
     addColBtn = isDisabled e3, remColBtn = isDisabled e4\<rparr>"
  have c: "constructor doc tableFieldSel appendRowButtonSel removeRowButtonSel
      appendColButtonSel removeColButtonSel minDimCountArg maxDimCountArg =
      Inr (syncCurrentState s0)"
    unfolding constructor_def s0_def using assms(1) e by simp
  have "minDimCount (syncCurrentState s0) = orDefault 2 minDimCountArg"
    by (simp add: syncCurrentState_def Let_def s0_def split: prod.splits)
  moreover have "maxDimCount (syncCurrentState s0) = orDefault 10 maxDimCountArg"
    by (simp add: syncCurrentState_def Let_def s0_def split: prod.splits)
  moreover have "bodyRows (syncCurrentState s0) = rowsOf (fst (getBodyOfField t))"
    by (simp add: bodyRows_syncCurrentState) (simp add: bodyRows_def bodyChildren_def s0_def)
  ultimately show ?thesis
    using c by simp
qed

text \<open>
  A document with a table of two rows of unequal length and the four controls, all under
  the default selectors, with \<open>minDim = 0\<close> and \<open>maxDim = 10\<close>.
\<close>

theorem constructor_no_validation_witness:
  "(\<exists>s. constructor (tableDocument [[''a''], [''b'', ''c'']]) None None None None None
           (Some 0) (Some 10) = Inr s
        \<and> minDimCount s = 0 \<and> maxDimCount s = 10
        \<and> bodyRows s = [[''a''], [''b'', ''c'']])"
proof -
  have f: "tableDocument [[''a''], [''b'', ''c'']] (orDefault ''.field'' None) =
      Some (HTMLTableElement [map Row [[''a''], [''b'', ''c'']]])"
    by (simp add: orDefault_def tableDocument_field)
  have c: "tableDocument [[''a''], [''b'', ''c'']] (orDefault ''.append-row.button'' None) \<noteq> None"
    "tableDocument [[''a''], [''b'', ''c'']] (orDefault ''.remove-row.button'' None) \<noteq> None"
    "tableDocument [[''a''], [''b'', ''c'']] (orDefault ''.append-column.button'' None) \<noteq> None"
    "tableDocument [[''a''], [''b'', ''c'']] (orDefault ''.remove-column.button'' None) \<noteq> None"
    by (simp_all add: orDefault_def tableDocument_controls)
  from constructor_no_validation [OF f c, of "Some 0" "Some 10"]
  show ?thesis
    by (simp add: orDefault_def getBodyOfField_def)
qed

text \<open>
  C4 as it is written fails on that document: with \<open>minDim = 0 < 1\<close> and rows of unequal
  length, and with \<open>maxDim = 3 < minDim = 5\<close>, the constructor returns an instance, not
  an error.
\<close>

theorem constructor_no_validation_counterexample:
  "\<not> isl (constructor (tableDocument [[''a''], [''b'', ''c'']]) None None None None None
        (Some 0) (Some 10))
   \<and> \<not> isl (constructor (tableDocument [[''a''], [''b'', ''c'']]) None None None None None
        (Some 5) (Some 3))"
  by (simp add: constructor_def orDefault_def tableDocument_field tableDocument_controls)

section \<open>Growing the rows: what the appended rows hold\<close>

text \<open>
  C7, as amended. When the last element child of the body is a row, \<open>growRows(k)\<close>,
  \<open>k \<ge> 1\<close>, throws nothing, and every row it appends has one cell for each cell of the
  last row there was, holding that cell's \<open>innerHTML\<close> as the browser stores it on
  assignment: the rows afterwards are the rows before, followed by copies of the last of
  them as assigned. Each appended row after the first is identical to the row just before
  it; the first appended row is identical to the last row there was whenever the markup
  of that row's cells is stored as it is. In particular, from two rows of three cells, the
  last being \<open>a\<close>, \<open>b\<close>, \<open>c\<close>, stored as they are, with \<open>maxDim = 10\<close>, \<open>growRows(2)\<close>
  gives four rows, the third and the fourth being \<open>a\<close>, \<open>b\<close>, \<open>c\<close>.
\<close>

theorem changeRows_copies_last_row:
  assumes "1 \<le> k" and "lastElementChild (bodyChildren s) = Some (Row r)"
  shows "thrown (changeRows reparse s k) = None
       \<and> last (bodyRows s) = r
       \<and> (\<exists>n. bodyRows (stateOf (changeRows reparse s k)) =
                bodyRows s @ replicate n (map reparse r))
       \<and> (\<forall>i. length (bodyRows s) < i
                \<and> i < length (bodyRows (stateOf (changeRows reparse s k))) \<longrightarrow>
              bodyRows (stateOf (changeRows reparse s k)) ! i =
                bodyRows (stateOf (changeRows reparse s k)) ! (i - 1))
       \<and> ((\<forall>c \<in> set r. reparse c = c) \<longrightarrow>
            (\<forall>i. length (bodyRows s) \<le> i
                \<and> i < length (bodyRows (stateOf (changeRows reparse s k))) \<longrightarrow>
              0 < i \<and> bodyRows (stateOf (changeRows reparse s k)) ! i =
                bodyRows (stateOf (changeRows reparse s k)) ! (i - 1)))
       \<and> (\<forall>r1. k = 2 \<and> length r1 = 3 \<and> bodyRows s = [r1, [''a'', ''b'', ''c'']]
                \<and> maxDimCount s = 10
                \<and> reparse ''a'' = ''a'' \<and> reparse ''b'' = ''b'' \<and> reparse ''c'' = ''c'' \<longrightarrow>
              bodyRows (stateOf (changeRows reparse s k)) =
                [r1, [''a'', ''b'', ''c''], [''a'', ''b'', ''c''], [''a'', ''b'', ''c'']])"
proof -
  let ?rows = "bodyRows s"
  let ?rows' = "bodyRows (stateOf (changeRows reparse s k))"
  from assms(1) have pos: "0 < k" by simp
  from last_rowsOf [OF assms(2)] have ne: "?rows \<noteq> []" and l: "last ?rows = r"
    by (simp_all add: bodyRows_def)
  define n where "n = min (nat k) (maxDimCount s - length ?rows)"
  have ok: "thrown (changeRows reparse s k) = None"
    by (rule changeRows_grow_Row(1) [OF pos assms(2)])
  have eq: "?rows' = ?rows @ replicate n (map reparse r)"
    unfolding n_def by (rule changeRows_grow_Row(2) [OF pos assms(2)])
  have later: "?rows' ! i = ?rows' ! (i - 1)"
    if "length ?rows < i" "i < length ?rows'" for i
    using that by (simp add: eq nth_append) arith
  have first: "0 < i \<and> ?rows' ! i = ?rows' ! (i - 1)"
    if same: "\<forall>c \<in> set r. reparse c = c"
      and i: "length ?rows \<le> i" "i < length ?rows'" for i
  proof -
    from same have m: "map reparse r = r" by (simp add: map_idI)
    from ne i(1) have p: "0 < i" by (cases ?rows) auto
    show ?thesis
    proof (cases "i = length ?rows")
      case True
      with i(2) ne l p show ?thesis
        by (simp add: eq m nth_append last_conv_nth)
    next
      case False
      with i(1) have "length ?rows < i" by simp
      from later [OF this i(2)] p show ?thesis by simp
    qed
  qed
  have inst: "?rows' = [r1, [''a'', ''b'', ''c''], [''a'', ''b'', ''c''], [''a'', ''b'', ''c'']]"
    if "k = 2" "?rows = [r1, [''a'', ''b'', ''c'']]" "maxDimCount s = 10"
      "reparse ''a'' = ''a''" "reparse ''b'' = ''b''" "reparse ''c'' = ''c''" for r1
  proof -
    from that(2) l have "r = [''a'', ''b'', ''c'']" by simp
    with that eq show ?thesis
      by (simp add: n_def numeral_2_eq_2)
  qed
  from ok l eq later first inst show ?thesis
    by blast
qed

text \<open>The scenario with \<open>x\<close>, \<open>y\<close>, \<open>z\<close> as the first row.\<close>

theorem changeRows_copies_last_row_witness:
  "(1::int) \<le> 2
   \<and> lastElementChild (bodyChildren
        (tableState 2 10 [[''x'', ''y'', ''z''], [''a'', ''b'', ''c'']])) =
       Some (Row [''a'', ''b'', ''c''])
   \<and> thrown (changeRows preSetter
        (tableState 2 10 [[''x'', ''y'', ''z''], [''a'', ''b'', ''c'']]) 2) = None
   \<and> bodyRows (stateOf (changeRows preSetter
        (tableState 2 10 [[''x'', ''y'', ''z''], [''a'', ''b'', ''c'']]) 2)) =
       [[''x'', ''y'', ''z''], [''a'', ''b'', ''c''], [''a'', ''b'', ''c''],
        [''a'', ''b'', ''c'']]"
proof -
  have h: "(1::int) \<le> 2" by simp
  have c: "lastElementChild (bodyChildren
        (tableState 2 10 [[''x'', ''y'', ''z''], [''a'', ''b'', ''c'']])) =
       Some (Row [''a'', ''b'', ''c''])"
    by (simp add: tableState_def bodyChildren_bodyState lastElementChild_def)
  have p: "preSetter ''a'' = ''a''" "preSetter ''b'' = ''b''" "preSetter ''c'' = ''c''"
    by (simp_all add: preSetter_def preWithLineFeed_def)
  from changeRows_copies_last_row [OF h c, of preSetter] c p
  show ?thesis
    by (simp add: bodyRows_tableState limits_tableState)
qed

text \<open>
  C7 as it is written fails on a last row whose one cell holds a \<open>pre\<close> element with a
  leading line feed: the appended row holds the markup without the line feed, which is not
  the content of the last row.
\<close>

theorem changeRows_copies_last_row_counterexample:
  "(1::int) \<le> 1
   \<and> lastElementChild (bodyChildren (tableState 1 10 [[''x''], [preWithLineFeed]])) =
       Some (Row [preWithLineFeed])
   \<and> thrown (changeRows preSetter (tableState 1 10 [[''x''], [preWithLineFeed]]) 1) = None
   \<and> bodyRows (stateOf
        (changeRows preSetter (tableState 1 10 [[''x''], [preWithLineFeed]]) 1)) =
       [[''x''], [preWithLineFeed], [preWithout]]
   \<and> bodyRows (stateOf
        (changeRows preSetter (tableState 1 10 [[''x''], [preWithLineFeed]]) 1)) ! 2 \<noteq>
       bodyRows (tableState 1 10 [[''x''], [preWithLineFeed]]) ! 1"
proof -
  have c: "lastElementChild (bodyChildren (tableState 1 10 [[''x''], [preWithLineFeed]])) =
       Some (Row [preWithLineFeed])"
    by (simp add: tableState_def bodyChildren_bodyState lastElementChild_def)
  have d: "preWithout \<noteq> preWithLineFeed"
    by (simp add: preWithout_def preWithLineFeed_def)
  have e: "bodyRows (stateOf
        (changeRows preSetter (tableState 1 10 [[''x''], [preWithLineFeed]]) 1)) =
       [[''x''], [preWithLineFeed], [preWithout]]"
    using changeRows_grow_Row(2) [OF _ c, of 1 preSetter]
    by (simp add: bodyRows_tableState limits_tableState preSetter_def)
  have t: "thrown (changeRows preSetter (tableState 1 10 [[''x''], [preWithLineFeed]]) 1) = None"
    using changeRows_grow_Row(1) [OF _ c, of 1 preSetter] by simp
  from c d e t show ?thesis
    by (simp add: bodyRows_tableState)
qed

section \<open>A last child of the body that is no row\<close>

text \<open>
  \<open>#changeRows\<close> takes \<open>tbody.lastElementChild\<close> for the row to copy, with the comment
  \<open>Can't add rows if there are none to copy\<close>, where \<open>#syncCurrentState\<close> reads
  \<open>tbody.rows\<close>. On a body whose last element child is no row (a \<open>template\<close> element,
  say) and that has fewer rows than \<open>maxDim\<close>, the adding branch inserts an empty row and
  throws. The three evaluations below are of that one defect; with each stands what holds
  of the calls that are free of it.
\<close>

subsection \<open>Row counts\<close>

lemma growRows_row_count:
  assumes "1 \<le> k" and "lastElementChild (bodyChildren s) = Some (Row r)"
    and "length (bodyRows s) \<le> maxDimCount s"
  shows "thrown (changeRows reparse s k) = None"
    and "int (length (bodyRows (stateOf (changeRows reparse s k)))) =
      min (int (length (bodyRows s)) + k) (int (maxDimCount s))"
proof -
  from assms(1) have pos: "0 < k" by simp
  show "thrown (changeRows reparse s k) = None"
    by (rule changeRows_grow_Row(1) [OF pos assms(2)])
  from changeRows_grow_Row(2) [OF pos assms(2), of reparse]
  have "length (bodyRows (stateOf (changeRows reparse s k))) =
      length (bodyRows s) + min (nat k) (maxDimCount s - length (bodyRows s))"
    by simp
  with assms(1,3)
  show "int (length (bodyRows (stateOf (changeRows reparse s k)))) =
      min (int (length (bodyRows s)) + k) (int (maxDimCount s))"
    by arith
qed

lemma shrinkRows_row_count:
  assumes "1 \<le> k" and "minDimCount s \<le> length (bodyRows s)"
  shows "thrown (changeRows reparse s (- k)) = None"
    and "int (length (bodyRows (stateOf (changeRows reparse s (- k))))) =
      max (int (length (bodyRows s)) - k) (int (minDimCount s))"
proof -
  from assms(1) have neg: "- k \<le> 0" by simp
  show "thrown (changeRows reparse s (- k)) = None"
    by (rule changeRows_shrink(1) [OF neg])
  from changeRows_shrink(2) [OF neg, of reparse s]
  have "length (bodyRows (stateOf (changeRows reparse s (- k)))) =
      length (bodyRows s) - min (nat k) (length (bodyRows s) - minDimCount s)"
    by simp
  with assms
  show "int (length (bodyRows (stateOf (changeRows reparse s (- k))))) =
      max (int (length (bodyRows s)) - k) (int (minDimCount s))"
    by arith
qed

text \<open>
  C1. The claim: from \<open>R\<close> rows, \<open>minDim \<le> R \<le> maxDim\<close>, \<open>growRows(k)\<close> leaves
  \<open>min(R + k, maxDim)\<close> rows and \<open>shrinkRows(k)\<close> leaves \<open>max(R - k, minDim)\<close>.
  The code, on two rows followed by an element that is no row, with the limits 2 and 10:
  \<open>growRows(2)\<close> throws a \<open>TypeError\<close> in its first iteration and leaves three rows, the
  third with no cell, where \<open>min(2 + 2, 10) = 4\<close>.
\<close>

theorem growRows_row_count_non_row_child:
  "minDimCount (bodyState 2 10 [Row [''a''], Row [''b''], NonRow])
     \<le> length (bodyRows (bodyState 2 10 [Row [''a''], Row [''b''], NonRow]))
   \<and> length (bodyRows (bodyState 2 10 [Row [''a''], Row [''b''], NonRow]))
     \<le> maxDimCount (bodyState 2 10 [Row [''a''], Row [''b''], NonRow])
   \<and> thrown (changeRows reparse (bodyState 2 10 [Row [''a''], Row [''b''], NonRow]) 2) =
       Some TypeError
   \<and> bodyRows (stateOf
        (changeRows reparse (bodyState 2 10 [Row [''a''], Row [''b''], NonRow]) 2)) =
       [[''a''], [''b''], []]
   \<and> int (length (bodyRows (stateOf
        (changeRows reparse (bodyState 2 10 [Row [''a''], Row [''b''], NonRow]) 2)))) \<noteq>
       min (int (length (bodyRows (bodyState 2 10 [Row [''a''], Row [''b''], NonRow]))) + 2)
         (int (maxDimCount (bodyState 2 10 [Row [''a''], Row [''b''], NonRow])))"
proof -
  let ?s = "bodyState 2 10 [Row [''a''], Row [''b''], NonRow]"
  have c: "lastElementChild (bodyChildren ?s) = Some NonRow"
    by (simp add: bodyChildren_bodyState lastElementChild_def)
  have l: "length (bodyRows ?s) < maxDimCount ?s"
    by (simp add: bodyRows_bodyState limits_bodyState)
  have p: "(0::int) < 2" by simp
  from changeRows_grow_NonRow [OF p c l, of reparse] show ?thesis
    by (simp add: bodyRows_bodyState limits_bodyState)
qed

subsection \<open>Rectangular grids\<close>

text \<open>A grid is rectangular when all its rows have one length.\<close>

lemma rectangular_iff:
  "rectangular rows \<longleftrightarrow> (\<exists>c. \<forall>r \<in> set rows. length r = c)"
proof (cases rows)
  case Nil
  then show ?thesis by simp
next
  case (Cons r rs)
  then have "rectangular rows \<longleftrightarrow> (\<forall>x \<in> set rs. length x = length r)"
    by (simp add: list_all_iff)
  also have "\<dots> \<longleftrightarrow> (\<exists>c. \<forall>x \<in> set rows. length x = c)"
  proof
    assume "\<forall>x \<in> set rs. length x = length r"
    with Cons have "\<forall>x \<in> set rows. length x = length r" by simp
    then show "\<exists>c. \<forall>x \<in> set rows. length x = c" ..
  next
    assume "\<exists>c. \<forall>x \<in> set rows. length x = c"
    then obtain c where c: "\<forall>x \<in> set rows. length x = c" ..
    with Cons have "length r = c" by simp
    moreover from c Cons have "\<forall>x \<in> set rs. length x = c" by simp
    ultimately show "\<forall>x \<in> set rs. length x = length r" by simp
  qed
  finally show ?thesis .
qed

lemma rectangular_append_copies:
  assumes "rectangular rows" and "rows \<noteq> []" and "length x = length (last rows)"
  shows "rectangular (rows @ replicate n x)"
proof -
  from assms(1) obtain c where c: "\<forall>r \<in> set rows. length r = c"
    unfolding rectangular_iff ..
  from assms(2) have "last rows \<in> set rows" by simp
  with c assms(3) have "length x = c" by simp
  with c have "\<forall>r \<in> set (rows @ replicate n x). length r = c"
    by auto
  then show ?thesis
    unfolding rectangular_iff ..
qed

lemma rectangular_take:
  assumes "rectangular rows"
  shows "rectangular (take n rows)"
proof -
  from assms obtain c where c: "\<forall>r \<in> set rows. length r = c"
    unfolding rectangular_iff ..
  have "set (take n rows) \<subseteq> set rows" by (rule set_take_subset)
  with c have "\<forall>r \<in> set (take n rows). length r = c" by blast
  then show ?thesis
    unfolding rectangular_iff ..
qed

lemma rectangular_map_addCol:
  assumes "rectangular rows"
  shows "rectangular (map (addCol reparse maxD) rows)"
proof -
  from assms obtain c where c: "\<forall>r \<in> set rows. length r = c"
    unfolding rectangular_iff ..
  then have "\<forall>r \<in> set (map (addCol reparse maxD) rows).
      length r = (if maxD \<le> c then c else c + 1)"
    by (simp add: length_addCol)
  then show ?thesis
    unfolding rectangular_iff ..
qed

lemma rectangular_map_remCol:
  assumes "rectangular rows"
  shows "rectangular (map (remCol minD) rows)"
proof -
  from assms obtain c where c: "\<forall>r \<in> set rows. length r = c"
    unfolding rectangular_iff ..
  then have "\<forall>r \<in> set (map (remCol minD) rows).
      length r = (if c \<le> minD then c else c - 1)"
    by (simp add: length_remCol)
  then show ?thesis
    unfolding rectangular_iff ..
qed

text \<open>Every call of \<open>#changeRows\<close> that throws nothing keeps a rectangular grid rectangular.\<close>

lemma changeRows_rectangular:
  assumes "rectangular (bodyRows s)" and "thrown (changeRows reparse s delta) = None"
  shows "rectangular (bodyRows (stateOf (changeRows reparse s delta)))"
proof (cases "0 < delta")
  case pos: True
  show ?thesis
  proof (cases "maxDimCount s \<le> length (bodyRows s)")
    case True
    from changeRows_grow_at_limit(2) [OF pos True, of reparse] assms(1)
    show ?thesis by (simp add: bodyRows_def)
  next
    case below: False
    show ?thesis
    proof (cases "lastElementChild (bodyChildren s)")
      case None
      then have "bodyChildren s = []"
        by (simp add: lastElementChild_def split: list.splits)
      from changeRows_grow_no_child(2) [OF pos this, of reparse]
      show ?thesis by (simp add: bodyRows_def)
    next
      case (Some c)
      show ?thesis
      proof (cases c)
        case (Row r)
        with Some have c: "lastElementChild (bodyChildren s) = Some (Row r)" by simp
        from last_rowsOf [OF c] have "bodyRows s \<noteq> []" "last (bodyRows s) = r"
          by (simp_all add: bodyRows_def)
        with assms(1) show ?thesis
          by (simp add: changeRows_grow_Row(2) [OF pos c] rectangular_append_copies)
      next
        case NonRow
        with Some have "lastElementChild (bodyChildren s) = Some NonRow" by simp
        from changeRows_grow_NonRow(1) [OF pos this, of reparse] below assms(2)
        show ?thesis by simp
      qed
    qed
  qed
next
  case False
  then have "delta \<le> 0" by simp
  from changeRows_shrink(2) [OF this, of reparse s] assms(1) show ?thesis
    by (simp add: rectangular_take)
qed

lemma changeCols_rectangular:
  assumes "rectangular (bodyRows s)"
  shows "rectangular (bodyRows (changeCols reparse s delta))"
proof (cases "0 < delta")
  case True
  with assms show ?thesis
    by (simp add: changeCols_grow rectangular_map_addCol)
next
  case False
  then have "delta \<le> 0" by simp
  with assms show ?thesis
    by (simp add: changeCols_shrink rectangular_map_remCol)
qed

text \<open>
  C5. The claim: a rectangular grid is rectangular again after any single \<open>growRows\<close>,
  \<open>shrinkRows\<close>, \<open>growCols\<close> or \<open>shrinkCols\<close>. The code, on two rows of one cell followed
  by an element that is no row, with the limits 2 and 10: the grid is rectangular,
  \<open>growRows(1)\<close> throws a \<open>TypeError\<close> and leaves a third row with no cell, and the grid
  is no longer rectangular.
\<close>

theorem growRows_ragged_non_row_child:
  "rectangular (bodyRows (bodyState 2 10 [Row [''a''], Row [''b''], NonRow]))
   \<and> thrown (changeRows reparse (bodyState 2 10 [Row [''a''], Row [''b''], NonRow]) 1) =
       Some TypeError
   \<and> bodyRows (stateOf
        (changeRows reparse (bodyState 2 10 [Row [''a''], Row [''b''], NonRow]) 1)) =
       [[''a''], [''b''], []]
   \<and> \<not> rectangular (bodyRows (stateOf
        (changeRows reparse (bodyState 2 10 [Row [''a''], Row [''b''], NonRow]) 1)))"
proof -
  let ?s = "bodyState 2 10 [Row [''a''], Row [''b''], NonRow]"
  have c: "lastElementChild (bodyChildren ?s) = Some NonRow"
    by (simp add: bodyChildren_bodyState lastElementChild_def)
  have l: "length (bodyRows ?s) < maxDimCount ?s"
    by (simp add: bodyRows_bodyState limits_bodyState)
  have p: "(0::int) < 1" by simp
  from changeRows_grow_NonRow [OF p c l, of reparse] show ?thesis
    by (simp add: bodyRows_bodyState)
qed

subsection \<open>Grids with no row\<close>

lemma growRows_no_child:
  assumes "bodyChildren s = []"
  shows "thrown (changeRows reparse s k) = None"
    and "bodyRows (stateOf (changeRows reparse s k)) = []"
proof -
  from assms have rows: "bodyRows s = []" by (simp add: bodyRows_def)
  show "thrown (changeRows reparse s k) = None"
  proof (cases "0 < k")
    case True
    then show ?thesis using assms by (rule changeRows_grow_no_child(1))
  next
    case False
    then have "k \<le> 0" by simp
    then show ?thesis by (rule changeRows_shrink(1))
  qed
  show "bodyRows (stateOf (changeRows reparse s k)) = []"
  proof (cases "0 < k")
    case True
    from changeRows_grow_no_child(2) [OF True assms, of reparse] show ?thesis
      by (simp add: bodyRows_def)
  next
    case False
    then have "k \<le> 0" by simp
    from changeRows_shrink(2) [OF this, of reparse s] rows show ?thesis by simp
  qed
qed

lemma no_row_colCount:
  assumes "bodyRows s = []"
  shows "colCount (bodyRows s) = 0"
    and "canAddX (currentState (syncCurrentState s)) = Some (0 < maxDimCount s)"
    and "canRemX (currentState (syncCurrentState s)) = Some (0 > minDimCount s)"
  using assms
  by (auto simp: syncCurrentState_def bodyRows_def bodyChildren_def Let_def flag_def
      colCount_def split: prod.splits)

text \<open>
  C8. The claim: on a grid with no row \<open>growRows(k)\<close> changes nothing and raises no
  error, and the sync takes the column count to be 0. The code, on a body with no row
  whose one child is an element that is no row, with the limits 2 and 10: the grid has no
  row and its column count is 0, but \<open>growRows(3)\<close> does not return at \<open>if (!refRow)\<close>: it
  throws a \<open>TypeError\<close> and leaves one row, with no cell.
\<close>

theorem growRows_no_row_non_row_child:
  "bodyRows (bodyState 2 10 [NonRow]) = []
   \<and> colCount (bodyRows (bodyState 2 10 [NonRow])) = 0
   \<and> thrown (changeRows reparse (bodyState 2 10 [NonRow]) 3) = Some TypeError
   \<and> bodyRows (stateOf (changeRows reparse (bodyState 2 10 [NonRow]) 3)) = [[]]"
proof -
  let ?s = "bodyState 2 10 [NonRow]"
  have c: "lastElementChild (bodyChildren ?s) = Some NonRow"
    by (simp add: bodyChildren_bodyState lastElementChild_def)
  have l: "length (bodyRows ?s) < maxDimCount ?s"
    by (simp add: bodyRows_bodyState limits_bodyState)
  have p: "(0::int) < 3" by simp
  from changeRows_grow_NonRow [OF p c l, of reparse] show ?thesis
    by (simp add: bodyRows_bodyState colCount_def)
qed

section \<open>Growing the columns by more than one\<close>

text \<open>
  \<open>growCols(count)\<close> is \<open>#changeCols(count)\<close>, whose \<open>delta\<close> is documented as
  \<open>The number of cols to add (> 0) or remove (< 0)\<close>.

  C3. The claim: every row below \<open>maxDim\<close> gains \<open>count\<close> new cells. The code, on one row
  of the two cells \<open>a\<close>, \<open>b\<close> with \<open>maxDim = 10\<close>: \<open>growCols(2)\<close> leaves the row with three
  cells, the third assigned the markup of \<open>b\<close>, not with four.
\<close>

theorem growCols_two_adds_one:
  "length (bodyRows (tableState 2 10 [[''a'', ''b'']]) ! 0)
     < maxDimCount (tableState 2 10 [[''a'', ''b'']])
   \<and> bodyRows (changeCols reparse (tableState 2 10 [[''a'', ''b'']]) 2) =
       [[''a'', ''b'', reparse ''b'']]
   \<and> length (bodyRows (changeCols reparse (tableState 2 10 [[''a'', ''b'']]) 2) ! 0) \<noteq>
       length (bodyRows (tableState 2 10 [[''a'', ''b'']]) ! 0) + 2"
  by (simp add: changeCols_grow bodyRows_tableState limits_tableState addCol_def)

end
